theory Spec2Isabelle
  imports Complex_Main "HOL-Library.AList" "HOL-Library.Sublist"
begin

section \<open>Python strings\<close>

text \<open>
  A Python \<open>str\<close> is a sequence of Unicode code points and \<open>len\<close> counts code points,
  so a string is modelled as a list of code points (natural numbers). \<open>py\<close> turns an ASCII
  literal into such a list.
\<close>

type_synonym codepoint = nat
type_synonym pystr = "codepoint list"

abbreviation py :: "string \<Rightarrow> pystr" where
  "py s \<equiv> map of_char s"

definition NL :: codepoint where
  "NL = 10"

text \<open>
  The white space of \<open>str.strip()\<close> and of \<open>\s\<close> in a \<open>str\<close> pattern of \<open>re\<close>: both
  test a code point with the interpreter's one white-space table (the code points for
  which \<open>str.isspace\<close> holds).
\<close>

definition isspace :: "codepoint \<Rightarrow> bool" where
  "isspace c \<longleftrightarrow>
     (9 \<le> c \<and> c \<le> 13) \<or> (28 \<le> c \<and> c \<le> 32) \<or> c = 133 \<or> c = 160 \<or> c = 5760 \<or>
     (8192 \<le> c \<and> c \<le> 8202) \<or> c = 8232 \<or> c = 8233 \<or> c = 8239 \<or> c = 8287 \<or>
     c = 12288"

text \<open>\<open>content.strip()\<close>: white space removed at both ends.\<close>

definition strip :: "pystr \<Rightarrow> pystr" where
  "strip s = rev (dropWhile isspace (rev (dropWhile isspace s)))"

text \<open>
  \<open>re.sub(r"\n{3,}", "\n\n", content)\<close>: scanning from the left, every maximal run of
  three or more newlines is replaced by two newlines; shorter runs stay.
\<close>

function sub_newlines :: "pystr \<Rightarrow> pystr" where
  "sub_newlines [] = []"
| "sub_newlines (c # cs) =
     (if c = NL then
        (if 2 \<le> length (takeWhile (\<lambda>x. x = NL) cs)
         then [NL, NL] @ sub_newlines (dropWhile (\<lambda>x. x = NL) cs)
         else c # sub_newlines cs)
      else c # sub_newlines cs)"
  by pat_completeness auto
termination
  by (relation "measure length") (auto simp: less_Suc_eq_le length_dropWhile_le)

text \<open>The character class \<open>[.!?]\<close>.\<close>

definition sentence_end :: "codepoint \<Rightarrow> bool" where
  "sentence_end c \<longleftrightarrow> c = 46 \<or> c = 33 \<or> c = 63"

text \<open>
  \<open>re.split(r"[.!?]\s+", content)\<close>: the leftmost match starts at the first position
  holding one of \<open>.!?\<close> with a white-space character after it, and the greedy \<open>\s+\<close> takes
  the whole white-space run; the pieces between the matches are returned, an empty piece
  included when a match sits at either end.
\<close>

function split_sentences :: "pystr \<Rightarrow> pystr list" where
  "split_sentences [] = [[]]"
| "split_sentences (c # cs) =
     (if sentence_end c \<and> cs \<noteq> [] \<and> isspace (hd cs)
      then [] # split_sentences (dropWhile isspace cs)
      else (case split_sentences cs of
              [] \<Rightarrow> [[c]]
            | p # ps \<Rightarrow> (c # p) # ps))"
  by pat_completeness auto
termination
  by (relation "measure length") (auto simp: less_Suc_eq_le length_dropWhile_le)

section \<open>Exceptions\<close>

text \<open>
  Every exception the modelled code raises is a value. An exception whose message
  interpolates data carries that data (the messages themselves are Russian text); where
  the code stores \<open>str(e)\<close>, the model stores the exception.
\<close>

datatype error =
    UnsupportedFormat pystr "pystr list"
      \<comment> \<open>\<open>ValueError\<close> of \<open>get_generator\<close>: the name and the available names\<close>
  | UnsupportedProvider pystr
      \<comment> \<open>\<open>ValueError\<close> of \<open>get_ai_provider\<close>: the lower-cased provider name\<close>
  | MissingApiKey pystr
      \<comment> \<open>\<open>ValueError\<close> of a provider constructor: the name of the unset variable\<close>
  | ImportError pystr
  | FormatNotFound pystr "pystr list"
      \<comment> \<open>\<open>KeyError\<close> of \<open>get_prompt\<close>: the name and the known format names\<close>
  | FormatNotFoundOnDelete pystr
      \<comment> \<open>\<open>KeyError\<close> of \<open>delete_prompt\<close>: the name only\<close>
  | KeyError pystr
      \<comment> \<open>a missing dictionary key\<close>
  | FileNotFoundError
  | YAMLError
  | OSError
  | AttributeError
  | IndexError
  | TransportError
  | HTTPStatusError nat
  | JSONDecodeError
  | TemplateError
  | HTTPException nat

section \<open>AI providers (src/ai/provider.py)\<close>

record AISettings =
  ai_provider :: pystr
  openai_api_key :: "pystr option"
  openai_base_url :: pystr
  openai_model :: pystr
  openrouter_api_key :: "pystr option"
  openrouter_base_url :: pystr
  openrouter_model :: pystr
  ollama_base_url :: pystr
  ollama_model :: pystr

text \<open>The request of \<open>client.chat.completions.create\<close> and what is read of its answer.\<close>

record chat_request =
  chat_base_url :: pystr
  chat_api_key :: pystr
  chat_model :: pystr
  chat_system :: pystr
  chat_user :: pystr
  chat_temperature :: real
  chat_max_tokens :: "int option"

text \<open>
  Of a completion the code reads \<open>response.choices[0].message.content\<close>: the model keeps
  the list of the choices' contents, \<open>None\<close> where a message has no content.
\<close>

type_synonym chat_response = "pystr option list"

record ollama_request =
  ollama_url :: pystr
  ollama_req_model :: pystr
  ollama_prompt :: pystr
  ollama_temperature :: real
  ollama_num_predict :: "int option"

text \<open>A JSON value, as far as the code looks into it.\<close>

datatype json = JStr pystr | JObj "(pystr \<times> json) list" | JOther

text \<open>
  What \<open>client.post\<close>, \<open>raise_for_status\<close> and \<open>response.json()\<close> make of the exchange:
  the transport fails, the status is one \<open>raise_for_status\<close> raises for, the body is not
  JSON, or the body is a JSON value.
\<close>

datatype http_result = ConnectionFailed | ErrorStatus nat | NotJSON | Body json

text \<open>
  What the code takes from outside the repository: \<open>str.lower\<close> and \<open>str.format\<close> of the
  interpreter (the latter applied to a template and the \<open>input_text\<close> argument), whether
  the optional libraries import, and the two transports, stubbed as functions of the
  request.
\<close>

record runtime =
  str_lower :: "pystr \<Rightarrow> pystr"
  str_format :: "pystr \<Rightarrow> pystr \<Rightarrow> error + pystr"
  openai_installed :: bool
  httpx_installed :: bool
  chat_completions_create :: "chat_request \<Rightarrow> error + chat_response"
  http_post :: "ollama_request \<Rightarrow> http_result"

datatype provider =
    OpenAIProvider AISettings
  | OpenRouterProvider AISettings
  | OllamaProvider AISettings

text \<open>
  A constructor that succeeds builds one client object; building it opens no connection.
  The constructors return the clients they built beside their result.
\<close>

datatype client = OpenAI_client pystr pystr | httpx_Client pystr

text \<open>\<open>not key\<close>: the key is \<open>None\<close> or the empty string.\<close>

definition falsy :: "pystr option \<Rightarrow> bool" where
  "falsy k \<longleftrightarrow> (case k of None \<Rightarrow> True | Some s \<Rightarrow> s = [])"

definition OpenAIProvider_init :: "runtime \<Rightarrow> AISettings \<Rightarrow> (error + provider) \<times> client list" where
  "OpenAIProvider_init rt settings =
     (if falsy (openai_api_key settings) then (Inl (MissingApiKey (py ''OPENAI_API_KEY'')), [])
      else if \<not> openai_installed rt then (Inl (ImportError (py ''openai'')), [])
      else (Inr (OpenAIProvider settings),
            [OpenAI_client (the (openai_api_key settings)) (openai_base_url settings)]))"

definition OpenRouterProvider_init :: "runtime \<Rightarrow> AISettings \<Rightarrow> (error + provider) \<times> client list" where
  "OpenRouterProvider_init rt settings =
     (if falsy (openrouter_api_key settings)
      then (Inl (MissingApiKey (py ''OPENROUTER_API_KEY'')), [])
      else if \<not> openai_installed rt then (Inl (ImportError (py ''openai'')), [])
      else (Inr (OpenRouterProvider settings),
            [OpenAI_client (the (openrouter_api_key settings)) (openrouter_base_url settings)]))"

definition OllamaProvider_init :: "runtime \<Rightarrow> AISettings \<Rightarrow> (error + provider) \<times> client list" where
  "OllamaProvider_init rt settings =
     (if \<not> httpx_installed rt then (Inl (ImportError (py ''httpx'')), [])
      else (Inr (OllamaProvider settings), [httpx_Client (ollama_base_url settings)]))"

definition get_ai_provider :: "runtime \<Rightarrow> AISettings \<Rightarrow> (error + provider) \<times> client list" where
  "get_ai_provider rt settings =
     (let provider_name = str_lower rt (ai_provider settings) in
      if provider_name = py ''openai'' then OpenAIProvider_init rt settings
      else if provider_name = py ''openrouter'' then OpenRouterProvider_init rt settings
      else if provider_name = py ''ollama'' then OllamaProvider_init rt settings
      else (Inl (UnsupportedProvider provider_name), []))"

text \<open>\<open>response.choices[0].message.content.strip()\<close>.\<close>

definition first_content :: "chat_response \<Rightarrow> error + pystr" where
  "first_content choices =
     (case choices of
        [] \<Rightarrow> Inl IndexError
      | None # _ \<Rightarrow> Inl AttributeError
      | Some content # _ \<Rightarrow> Inr (strip content))"

definition OpenAIProvider_request ::
  "AISettings \<Rightarrow> pystr \<Rightarrow> pystr \<Rightarrow> real \<Rightarrow> int option \<Rightarrow> chat_request" where
  "OpenAIProvider_request settings system_prompt user_prompt temperature max_tokens =
     \<lparr>chat_base_url = openai_base_url settings,
      chat_api_key = the (openai_api_key settings),
      chat_model = openai_model settings,
      chat_system = system_prompt, chat_user = user_prompt,
      chat_temperature = temperature, chat_max_tokens = max_tokens\<rparr>"

definition OpenAIProvider_generate ::
  "runtime \<Rightarrow> AISettings \<Rightarrow> pystr \<Rightarrow> pystr \<Rightarrow> real \<Rightarrow> int option \<Rightarrow> error + pystr" where
  "OpenAIProvider_generate rt settings system_prompt user_prompt temperature max_tokens =
     (case chat_completions_create rt
             (OpenAIProvider_request settings system_prompt user_prompt temperature max_tokens) of
        Inl e \<Rightarrow> Inl e
      | Inr response \<Rightarrow> first_content response)"

definition OpenRouterProvider_request ::
  "AISettings \<Rightarrow> pystr \<Rightarrow> pystr \<Rightarrow> real \<Rightarrow> int option \<Rightarrow> chat_request" where
  "OpenRouterProvider_request settings system_prompt user_prompt temperature max_tokens =
     \<lparr>chat_base_url = openrouter_base_url settings,
      chat_api_key = the (openrouter_api_key settings),
      chat_model = openrouter_model settings,
      chat_system = system_prompt, chat_user = user_prompt,
      chat_temperature = temperature, chat_max_tokens = max_tokens\<rparr>"

definition OpenRouterProvider_generate ::
  "runtime \<Rightarrow> AISettings \<Rightarrow> pystr \<Rightarrow> pystr \<Rightarrow> real \<Rightarrow> int option \<Rightarrow> error + pystr" where
  "OpenRouterProvider_generate rt settings system_prompt user_prompt temperature max_tokens =
     (case chat_completions_create rt
             (OpenRouterProvider_request settings system_prompt user_prompt temperature max_tokens) of
        Inl e \<Rightarrow> Inl e
      | Inr response \<Rightarrow> first_content response)"

text \<open>
  \<open>result.get("response", "").strip()\<close>: \<open>get\<close> exists on a JSON object only and gives its
  default for a missing key; \<open>strip\<close> exists on a string only.
\<close>

definition response_text :: "json \<Rightarrow> error + pystr" where
  "response_text result =
     (case result of
        JObj members \<Rightarrow>
          (case map_of members (py ''response'') of
             None \<Rightarrow> Inr (strip [])
           | Some (JStr s) \<Rightarrow> Inr (strip s)
           | Some _ \<Rightarrow> Inl AttributeError)
      | _ \<Rightarrow> Inl AttributeError)"

text \<open>The JSON sent to \<open>/api/generate\<close>; the two prompts are joined by an empty line.\<close>

definition OllamaProvider_request ::
  "AISettings \<Rightarrow> pystr \<Rightarrow> pystr \<Rightarrow> real \<Rightarrow> int option \<Rightarrow> ollama_request" where
  "OllamaProvider_request settings system_prompt user_prompt temperature max_tokens =
     (let combined_prompt = system_prompt @ [NL, NL] @ user_prompt in
      \<lparr>ollama_url = ollama_base_url settings,
       ollama_req_model = ollama_model settings,
       ollama_prompt = combined_prompt,
       ollama_temperature = temperature,
       ollama_num_predict = max_tokens\<rparr>)"

definition OllamaProvider_generate ::
  "runtime \<Rightarrow> AISettings \<Rightarrow> pystr \<Rightarrow> pystr \<Rightarrow> real \<Rightarrow> int option \<Rightarrow> error + pystr" where
  "OllamaProvider_generate rt settings system_prompt user_prompt temperature max_tokens =
     (case http_post rt
             (OllamaProvider_request settings system_prompt user_prompt temperature max_tokens) of
        ConnectionFailed \<Rightarrow> Inl TransportError
      | ErrorStatus code \<Rightarrow> Inl (HTTPStatusError code)
      | NotJSON \<Rightarrow> Inl JSONDecodeError
      | Body result \<Rightarrow> response_text result)"

fun provider_generate ::
  "runtime \<Rightarrow> provider \<Rightarrow> pystr \<Rightarrow> pystr \<Rightarrow> real \<Rightarrow> int option \<Rightarrow> error + pystr" where
  "provider_generate rt (OpenAIProvider settings) s u t m = OpenAIProvider_generate rt settings s u t m"
| "provider_generate rt (OpenRouterProvider settings) s u t m =
     OpenRouterProvider_generate rt settings s u t m"
| "provider_generate rt (OllamaProvider settings) s u t m = OllamaProvider_generate rt settings s u t m"

section \<open>The prompt store (src/config/prompt_loader.py)\<close>

text \<open>
  A Python dictionary keeps its keys in insertion order: an association list, written
  with \<open>AList.update\<close> (replace in place, or append) and \<open>AList.delete\<close>, read with
  \<open>map_of\<close>. The prompts are a dictionary from format names to dictionaries of strings.
\<close>

type_synonym prompt_config = "(pystr \<times> pystr) list"
type_synonym prompts = "(pystr \<times> prompt_config) list"

text \<open>
  The YAML file at \<open>config_path\<close>: missing, not parseable, or holding a mapping of
  mappings; \<open>yaml.dump\<close> followed by \<open>yaml.safe_load\<close> is taken to give the mapping back.
\<close>

datatype disk = FileMissing | FileInvalid | FileDoc prompts

record PromptLoader =
  config_file :: disk
  cache :: "prompts option"

text \<open>What opening the file for writing and dumping into it does, chosen by the environment:
  the mapping is written; \<open>open\<close> fails and the file stays; or the dump fails after the file
  was truncated and leaves some content behind.\<close>

datatype write_outcome = Written | OpenFailed | DumpFailed disk

definition read_yaml :: "disk \<Rightarrow> error + prompts" where
  "read_yaml d = (case d of
       FileMissing \<Rightarrow> Inl FileNotFoundError
     | FileInvalid \<Rightarrow> Inl YAMLError
     | FileDoc p \<Rightarrow> Inr p)"

definition load :: "PromptLoader \<Rightarrow> (error + prompts) \<times> PromptLoader" where
  "load self =
     (case cache self of
        Some p \<Rightarrow> (Inr p, self)
      | None \<Rightarrow>
          (case read_yaml (config_file self) of
             Inl e \<Rightarrow> (Inl e, self)
           | Inr p \<Rightarrow> (Inr p, self\<lparr>cache := Some p\<rparr>)))"

definition get_prompt :: "PromptLoader \<Rightarrow> pystr \<Rightarrow> (error + prompt_config) \<times> PromptLoader" where
  "get_prompt self format_name =
     (case load self of
        (Inl e, self') \<Rightarrow> (Inl e, self')
      | (Inr prompts, self') \<Rightarrow>
          (case map_of prompts format_name of
             None \<Rightarrow> (Inl (FormatNotFound format_name (map fst prompts)), self')
           | Some config \<Rightarrow> (Inr config, self')))"


definition persist :: "write_outcome \<Rightarrow> prompts \<Rightarrow> PromptLoader \<Rightarrow> (error + unit) \<times> PromptLoader" where
  "persist w prompts self =
     (case w of
        Written \<Rightarrow> (Inr (), self\<lparr>config_file := FileDoc prompts\<rparr>)
      | OpenFailed \<Rightarrow> (Inl OSError, self)
      | DumpFailed d \<Rightarrow> (Inl OSError, self\<lparr>config_file := d\<rparr>))"

definition save_prompt ::
  "write_outcome \<Rightarrow> PromptLoader \<Rightarrow> pystr \<Rightarrow> pystr \<Rightarrow> pystr \<Rightarrow> (error + unit) \<times> PromptLoader" where
  "save_prompt w self format_name system_prompt user_prompt =
     (case load self of
        (Inl e, self') \<Rightarrow> (Inl e, self')
      | (Inr prompts, self') \<Rightarrow>
          persist w
            (AList.update format_name
               [(py ''system'', system_prompt), (py ''user'', user_prompt)] prompts)
            (self'\<lparr>cache := None\<rparr>))"


section \<open>Generators (src/generators/base.py, src/generators/formats.py)\<close>

datatype generator_class =
    BaseGenerator
  | TelegramGenerator
  | EmailGenerator
  | OfficialLetterGenerator
  | NewsletterGenerator

fun format_name_of :: "generator_class \<Rightarrow> pystr" where
  "format_name_of BaseGenerator = []"
| "format_name_of TelegramGenerator = py ''telegram''"
| "format_name_of EmailGenerator = py ''email''"
| "format_name_of OfficialLetterGenerator = py ''official_letter''"
| "format_name_of NewsletterGenerator = py ''newsletter''"

fun get_temperature :: "generator_class \<Rightarrow> real" where
  "get_temperature BaseGenerator = 7 / 10"
| "get_temperature TelegramGenerator = 8 / 10"
| "get_temperature EmailGenerator = 7 / 10"
| "get_temperature OfficialLetterGenerator = 5 / 10"
| "get_temperature NewsletterGenerator = 7 / 10"

fun get_max_tokens :: "generator_class \<Rightarrow> int option" where
  "get_max_tokens BaseGenerator = None"
| "get_max_tokens TelegramGenerator = Some 200"
| "get_max_tokens EmailGenerator = Some 300"
| "get_max_tokens OfficialLetterGenerator = Some 600"
| "get_max_tokens NewsletterGenerator = Some 500"

text \<open>The loop of \<open>TelegramGenerator.post_process\<close> over the sentences.\<close>

fun reassemble :: "pystr \<Rightarrow> pystr list \<Rightarrow> pystr" where
  "reassemble result [] = result"
| "reassemble result (sentence # sentences) =
     (if length (result @ sentence) \<le> 300
      then reassemble (result @ sentence @ py ''. '') sentences
      else result)"

definition Telegram_post_process :: "pystr \<Rightarrow> pystr" where
  "Telegram_post_process content0 =
     (let content = strip (sub_newlines content0) in
      if length content > 300
      then take 300 (strip (reassemble [] (split_sentences content)))
      else content)"

text \<open>
  The other classes: every branch of \<open>EmailGenerator.post_process\<close> returns
  \<open>content.strip()\<close>, and \<open>OfficialLetterGenerator.post_process\<close> only logs before it does.
\<close>

fun post_process :: "generator_class \<Rightarrow> pystr \<Rightarrow> pystr" where
  "post_process BaseGenerator content = strip content"
| "post_process TelegramGenerator content = Telegram_post_process content"
| "post_process EmailGenerator content = strip content"
| "post_process OfficialLetterGenerator content = strip content"
| "post_process NewsletterGenerator content = strip (sub_newlines content)"

definition GENERATORS :: "(pystr \<times> generator_class) list" where
  "GENERATORS =
     [(py ''telegram'', TelegramGenerator),
      (py ''email'', EmailGenerator),
      (py ''official_letter'', OfficialLetterGenerator),
      (py ''newsletter'', NewsletterGenerator)]"

text \<open>
  A generator built without arguments: its class and the provider that
  \<open>get_ai_provider()\<close> gave the constructor. Its prompt loader is a fresh one on the
  default file, with nothing cached.
\<close>

record generator =
  gen_class :: generator_class
  gen_provider :: provider

definition get_generator :: "runtime \<Rightarrow> AISettings \<Rightarrow> pystr \<Rightarrow> error + generator" where
  "get_generator rt settings format_name =
     (case map_of GENERATORS format_name of
        None \<Rightarrow> Inl (UnsupportedFormat format_name (map fst GENERATORS))
      | Some cls \<Rightarrow>
          (case fst (get_ai_provider rt settings) of
             Inl e \<Rightarrow> Inl e
           | Inr p \<Rightarrow> Inr \<lparr>gen_class = cls, gen_provider = p\<rparr>))"

text \<open>
  \<open>BaseGenerator.generate\<close>, called with no keyword arguments as every caller does. The
  prompt configuration is read through the generator's fresh loader from the file \<open>d\<close>.
\<close>

definition generate :: "runtime \<Rightarrow> disk \<Rightarrow> generator \<Rightarrow> pystr \<Rightarrow> error + pystr" where
  "generate rt d self input_text =
     (case fst (get_prompt \<lparr>config_file = d, cache = None\<rparr> (format_name_of (gen_class self))) of
        Inl e \<Rightarrow> Inl e
      | Inr prompt_config \<Rightarrow>
          (case map_of prompt_config (py ''system'') of
             None \<Rightarrow> Inl (KeyError (py ''system''))
           | Some system_prompt \<Rightarrow>
               (case map_of prompt_config (py ''user'') of
                  None \<Rightarrow> Inl (KeyError (py ''user''))
                | Some user_template \<Rightarrow>
                    (case str_format rt user_template input_text of
                       Inl e \<Rightarrow> Inl e
                     | Inr user_prompt \<Rightarrow>
                         (case provider_generate rt (gen_provider self) system_prompt user_prompt
                                 (get_temperature (gen_class self))
                                 (get_max_tokens (gen_class self)) of
                            Inl e \<Rightarrow> Inl e
                          | Inr result \<Rightarrow> Inr (post_process (gen_class self) result))))))"

section \<open>The batch of the HTTP API and of the command line (src/main.py, src/cli.py)\<close>

text \<open>The body of the \<open>try\<close> in both loops: resolve the generator, then generate.\<close>

definition generate_format :: "runtime \<Rightarrow> AISettings \<Rightarrow> disk \<Rightarrow> pystr \<Rightarrow> pystr \<Rightarrow> error + pystr" where
  "generate_format rt settings d input_text format_name =
     (case get_generator rt settings format_name of
        Inl e \<Rightarrow> Inl e
      | Inr generator \<Rightarrow> generate rt d generator input_text)"

type_synonym results = "(pystr \<times> pystr option) list"
type_synonym errors = "(pystr \<times> error) list"

text \<open>
  The \<open>for\<close> loop, the same in \<open>generate_content\<close> and in the command line: a success
  stores the content; any exception is caught, stored in \<open>errors\<close>, and the format's
  result is set to \<open>None\<close>.
\<close>

fun batch_loop ::
  "(pystr \<Rightarrow> error + pystr) \<Rightarrow> pystr list \<Rightarrow> results \<times> errors \<Rightarrow> results \<times> errors" where
  "batch_loop run [] (results, errors) = (results, errors)"
| "batch_loop run (format_name # formats) (results, errors) =
     (case run format_name of
        Inr content \<Rightarrow>
          batch_loop run formats (AList.update format_name (Some content) results, errors)
      | Inl e \<Rightarrow>
          batch_loop run formats
            (AList.update format_name None results, AList.update format_name e errors))"

record output_data =
  od_input_text :: pystr
  od_formats :: "pystr list"
  od_results :: results
  od_errors :: "errors option"

text \<open>
  \<open>generate_content\<close> of the HTTP API: the data handed to \<open>save_output\<close> (whose failure is
  caught and only logged) and the \<open>results\<close> of the response, or the HTTP exception.
\<close>

definition generate_content ::
  "runtime \<Rightarrow> AISettings \<Rightarrow> disk \<Rightarrow> pystr \<Rightarrow> pystr list \<Rightarrow> error + (output_data \<times> results)" where
  "generate_content rt settings d input_text formats =
     (case batch_loop (generate_format rt settings d input_text) formats ([], []) of
        (results, errors) \<Rightarrow>
          if results = [] \<or> (\<forall>v \<in> set (map snd results). v = None)
          then Inl (HTTPException 500)
          else Inr (\<lparr>od_input_text = input_text, od_formats = formats, od_results = results,
                      od_errors = (if errors = [] then None else Some errors)\<rparr>,
                    results))"

text \<open>
  \<open>generate\<close> of the command line: the exit status, and the output data when the loop ran.
  The requested formats are checked against the registry first.
\<close>

record cli_outcome =
  exit_status :: nat
  cli_output :: "output_data option"

definition cli_generate ::
  "runtime \<Rightarrow> AISettings \<Rightarrow> disk \<Rightarrow> pystr \<Rightarrow> pystr list \<Rightarrow> cli_outcome" where
  "cli_generate rt settings d input_text formats =
     (let formats_list = (if formats \<noteq> [] then formats else map fst GENERATORS);
          invalid_formats = filter (\<lambda>f. f \<notin> fst ` set GENERATORS) formats_list
      in if invalid_formats \<noteq> [] then \<lparr>exit_status = 1, cli_output = None\<rparr>
         else (case batch_loop (generate_format rt settings d input_text) formats_list ([], []) of
                 (results, errors) \<Rightarrow>
                   \<lparr>exit_status = (if errors \<noteq> [] then 1 else 0),
                    cli_output = Some \<lparr>od_input_text = input_text, od_formats = formats_list,
                                       od_results = results,
                                       od_errors = (if errors = [] then None else Some errors)\<rparr>\<rparr>))"

section \<open>Stubs for concrete runs\<close>

text \<open>
  The ASCII part of \<open>str.lower\<close>, and the part of \<open>str.format\<close> that replaces the field
  \<open>{input_text}\<close> in a template with no other brace.
\<close>

definition ascii_lower :: "pystr \<Rightarrow> pystr" where
  "ascii_lower s = map (\<lambda>c. if 65 \<le> c \<and> c \<le> 90 then c + 32 else c) s"

fun format_input_text :: "pystr \<Rightarrow> pystr \<Rightarrow> error + pystr" where
  "format_input_text [] x = Inr []"
| "format_input_text (c # cs) x =
     (if c = 123 then
        (if take 11 cs = py ''input_text}''
         then (case format_input_text (drop 11 cs) x of Inl e \<Rightarrow> Inl e | Inr r \<Rightarrow> Inr (x @ r))
         else Inl TemplateError)
      else if c = 125 then Inl TemplateError
      else (case format_input_text cs x of Inl e \<Rightarrow> Inl e | Inr r \<Rightarrow> Inr (c # r)))"

text \<open>
  A configuration and a stubbed environment for concrete runs: the hosted backend is
  selected, its transport fails for the e-mail prompt only and answers every other request
  with one fixed text; the local transport answers with an empty JSON object. The store
  holds a template for three formats, one of them not built in.
\<close>

definition stub_settings :: AISettings where
  "stub_settings =
     \<lparr>ai_provider = py ''OpenAI'',
      openai_api_key = Some (py ''sk-test''),
      openai_base_url = py ''https://api.openai.com/v1'',
      openai_model = py ''gpt-4o'',
      openrouter_api_key = None,
      openrouter_base_url = py ''https://openrouter.ai/api/v1'',
      openrouter_model = py ''x-ai/grok-4.1-fast:free'',
      ollama_base_url = py ''http://localhost:11434'',
      ollama_model = py ''llama3.2''\<rparr>"

definition stub_chat :: "chat_request \<Rightarrow> error + chat_response" where
  "stub_chat request =
     (if chat_system request = py ''You write emails.'' then Inl TransportError
      else Inr [Some (py '' Product X is out. '')])"

definition stub_runtime :: runtime where
  "stub_runtime =
     \<lparr>str_lower = ascii_lower,
      str_format = format_input_text,
      openai_installed = True,
      httpx_installed = True,
      chat_completions_create = stub_chat,
      http_post = (\<lambda>request. Body (JObj []))\<rparr>"

definition stub_prompts :: prompts where
  "stub_prompts =
     [(py ''telegram'', [(py ''system'', py ''You write posts.''), (py ''user'', py ''Post: {input_text}'')]),
      (py ''email'', [(py ''system'', py ''You write emails.''), (py ''user'', py ''Mail: {input_text}'')]),
      (py ''blog'', [(py ''system'', py ''You write blogs.''), (py ''user'', py ''Blog: {input_text}'')])]"

definition stub_loader :: PromptLoader where
  "stub_loader = \<lparr>config_file = FileDoc stub_prompts, cache = None\<rparr>"

text \<open>The same environment with a hosted backend whose answer carries no content.\<close>

definition silent_runtime :: runtime where
  "silent_runtime = stub_runtime\<lparr>chat_completions_create := (\<lambda>request. Inr [None])\<rparr>"

text \<open>
  Two texts longer than 300 characters: 350 letters with no sentence end, and a sentence of
  100 letters closed by an exclamation mark, followed by 300 more letters.
\<close>

definition one_long_sentence :: pystr where
  "one_long_sentence = replicate 350 97"

definition two_sentences :: pystr where
  "two_sentences = replicate 100 97 @ py ''! '' @ replicate 300 98"

section \<open>The prompt store: writes and reads\<close>

lemma load_uncached: "cache self = None \<Longrightarrow> fst (load self) = read_yaml (config_file self)"
  by (simp add: load_def split: sum.splits)

lemma load_ok_cases:
  "fst (load self) = Inr p \<Longrightarrow> load self = (Inr p, self\<lparr>cache := Some p\<rparr>)"
  by (auto simp: load_def split: option.splits sum.splits)






text \<open>
  Claim C9. When the store loads and the write of \<open>save_prompt\<close> fails, \<open>save_prompt\<close>
  raises the error of the write and leaves the cache empty, so that the next \<open>load\<close>
  returns what reading the file gives; when it was the opening of the file that failed, the
  file is the one from before.
\<close>

theorem save_prompt_failure_invalidates_cache:
  assumes "fst (load self) = Inr p" and "w \<noteq> Written"
  shows "\<exists>self'. save_prompt w self format_name system_prompt user_prompt = (Inl OSError, self')
           \<and> cache self' = None
           \<and> fst (load self') = read_yaml (config_file self')
           \<and> (w = OpenFailed \<longrightarrow> config_file self' = config_file self)"
  using load_ok_cases[OF assms(1)] assms(2)
  by (cases w) (simp_all add: save_prompt_def persist_def load_uncached)

theorem save_prompt_failure_invalidates_cache_witness:
  "fst (load (stub_loader\<lparr>cache := Some stub_prompts\<rparr>)) = Inr stub_prompts
   \<and> DumpFailed FileInvalid \<noteq> Written
   \<and> (\<exists>self'. save_prompt (DumpFailed FileInvalid) (stub_loader\<lparr>cache := Some stub_prompts\<rparr>)
                  (py ''memo'') (py ''Be brief.'') (py ''{input_text}'') = (Inl OSError, self')
           \<and> cache self' = None
           \<and> fst (load self') = read_yaml (config_file self'))"
proof -
  have cached: "fst (load (stub_loader\<lparr>cache := Some stub_prompts\<rparr>)) = Inr stub_prompts"
    by (simp add: load_def)
  have failed: "DumpFailed FileInvalid \<noteq> Written"
    by simp
  show ?thesis
    using save_prompt_failure_invalidates_cache[OF cached failed,
        of "py ''memo''" "py ''Be brief.''" "py ''{input_text}''"] cached
    by auto
qed

section \<open>The provider factory\<close>

text \<open>
  Claim C7. When the lower-cased provider name of the settings is none of \<open>openai\<close>,
  \<open>openrouter\<close> and \<open>ollama\<close>, \<open>get_ai_provider\<close> raises the unsupported-provider error and
  has built no client; it has no access to a transport, so no request is sent either.
\<close>

theorem unsupported_provider_fails_first:
  assumes "str_lower rt (ai_provider settings) \<notin> {py ''openai'', py ''openrouter'', py ''ollama''}"
  shows "get_ai_provider rt settings
           = (Inl (UnsupportedProvider (str_lower rt (ai_provider settings))), [])"
  using assms by (simp add: get_ai_provider_def Let_def)

theorem unsupported_provider_fails_first_witness:
  "str_lower stub_runtime (ai_provider (stub_settings\<lparr>ai_provider := py ''Claude''\<rparr>))
     \<notin> {py ''openai'', py ''openrouter'', py ''ollama''}
   \<and> get_ai_provider stub_runtime (stub_settings\<lparr>ai_provider := py ''Claude''\<rparr>)
       = (Inl (UnsupportedProvider (py ''claude'')), [])"
proof -
  have lowered: "str_lower stub_runtime (ai_provider (stub_settings\<lparr>ai_provider := py ''Claude''\<rparr>))
                   = py ''claude''"
    by (simp add: stub_runtime_def ascii_lower_def)
  have unsupported: "str_lower stub_runtime (ai_provider (stub_settings\<lparr>ai_provider := py ''Claude''\<rparr>))
                   \<notin> {py ''openai'', py ''openrouter'', py ''ollama''}"
    unfolding lowered by simp
  show ?thesis
    using unsupported_provider_fails_first[OF unsupported] unsupported
    unfolding lowered by simp
qed

section \<open>What the providers return\<close>

lemma strip_Nil: "strip [] = []"
  by (simp add: strip_def)

lemma dropWhile_rev_dropWhile_rev:
  assumes "u = [] \<or> \<not> P (hd u)"
  shows "dropWhile P (rev (dropWhile P (rev u))) = rev (dropWhile P (rev u))"
proof (cases "dropWhile P (rev u) = []")
  case True
  then show ?thesis by (simp only: rev.simps dropWhile.simps)
next
  case False
  define v where "v = dropWhile P (rev u)"
  define w where "w = rev (takeWhile P (rev u))"
  have nonempty: "rev v \<noteq> []"
    using False by (simp add: v_def)
  have "rev u = takeWhile P (rev u) @ v"
    by (simp add: v_def)
  then have "rev (rev u) = rev (takeWhile P (rev u) @ v)"
    by (rule arg_cong)
  then have split: "u = rev v @ w"
    by (simp add: w_def)
  from split nonempty have "hd u = hd (rev v)"
    by (metis hd_append2)
  moreover from split nonempty have "u \<noteq> []"
    by auto
  ultimately have "\<not> P (hd (rev v))"
    using assms by simp
  with nonempty have "dropWhile P (rev v) = rev v"
    by (cases "rev v") auto
  then show ?thesis
    by (simp only: v_def)
qed

lemma dropWhile_head: "dropWhile P s = [] \<or> \<not> P (hd (dropWhile P s))"
  using hd_dropWhile by blast

lemma strip_strip: "strip (strip s) = strip s"
  unfolding strip_def
  by (simp add: dropWhile_rev_dropWhile_rev[OF dropWhile_head])

lemma first_content_trimmed: "first_content choices = Inr text \<Longrightarrow> strip text = text"
  by (auto simp: first_content_def strip_strip split: list.splits option.splits)

lemma response_text_trimmed: "response_text result = Inr text \<Longrightarrow> strip text = text"
  by (auto simp: response_text_def strip_strip split: json.splits option.splits)

lemma provider_generate_trimmed: "provider_generate rt p s u t m = Inr text \<Longrightarrow> strip text = text"
  by (cases p)
    (auto simp: OpenAIProvider_generate_def OpenRouterProvider_generate_def
       OllamaProvider_generate_def first_content_trimmed response_text_trimmed
       split: sum.splits http_result.splits)

text \<open>
  Claim C8, as stated, fails for the local backend: a well-formed answer whose JSON object
  has no \<open>response\<close> member makes \<open>generate\<close> return the empty string, not raise.
\<close>

theorem ollama_missing_response_counterexample:
  "http_post stub_runtime
      (OllamaProvider_request stub_settings (py ''You write posts.'') (py ''Post: X'') (8 / 10) (Some 200))
     = Body (JObj [])
   \<and> provider_generate stub_runtime (OllamaProvider stub_settings)
        (py ''You write posts.'') (py ''Post: X'') (8 / 10) (Some 200) = Inr []"
  by (simp add: OllamaProvider_generate_def stub_runtime_def response_text_def strip_Nil)

text \<open>
  Claim C8, amended. Whatever a provider's \<open>generate\<close> returns is a trimmed string, and
  every other outcome is a raised exception. When the first choice of the hosted answer has
  no content, the two hosted providers raise; when the JSON object answered to the local
  provider has no \<open>response\<close> member, the local provider returns the empty string.
\<close>

theorem provider_generate_trimmed_or_error:
  "(provider_generate rt p s u t m = Inr text \<longrightarrow> strip text = text)
   \<and> (chat_completions_create rt (OpenAIProvider_request st s u t m) = Inr (None # rest) \<longrightarrow>
        provider_generate rt (OpenAIProvider st) s u t m = Inl AttributeError)
   \<and> (chat_completions_create rt (OpenRouterProvider_request st s u t m) = Inr (None # rest) \<longrightarrow>
        provider_generate rt (OpenRouterProvider st) s u t m = Inl AttributeError)
   \<and> (http_post rt (OllamaProvider_request st s u t m) = Body (JObj members)
        \<and> map_of members (py ''response'') = None \<longrightarrow>
        provider_generate rt (OllamaProvider st) s u t m = Inr [])"
  by (auto simp: provider_generate_trimmed OpenAIProvider_generate_def OpenRouterProvider_generate_def
       OllamaProvider_generate_def first_content_def response_text_def strip_Nil)

theorem provider_generate_trimmed_or_error_witness:
  "provider_generate silent_runtime (OllamaProvider stub_settings) (py ''s'') (py ''u'') (7 / 10) None = Inr []
   \<and> strip [] = []
   \<and> chat_completions_create silent_runtime
        (OpenAIProvider_request stub_settings (py ''s'') (py ''u'') (7 / 10) None) = Inr [None]
   \<and> provider_generate silent_runtime (OpenAIProvider stub_settings) (py ''s'') (py ''u'') (7 / 10) None
        = Inl AttributeError
   \<and> chat_completions_create silent_runtime
        (OpenRouterProvider_request stub_settings (py ''s'') (py ''u'') (7 / 10) None) = Inr [None]
   \<and> provider_generate silent_runtime (OpenRouterProvider stub_settings) (py ''s'') (py ''u'') (7 / 10) None
        = Inl AttributeError
   \<and> http_post silent_runtime
        (OllamaProvider_request stub_settings (py ''s'') (py ''u'') (7 / 10) None) = Body (JObj [])
   \<and> map_of ([] :: (pystr \<times> json) list) (py ''response'') = None"
proof -
  have chat: "chat_completions_create silent_runtime request = Inr [None]" for request
    by (simp add: silent_runtime_def)
  have post: "http_post silent_runtime request = Body (JObj [])" for request
    by (simp add: silent_runtime_def stub_runtime_def)
  show ?thesis
    using provider_generate_trimmed_or_error[of silent_runtime "OllamaProvider stub_settings"
        "py ''s''" "py ''u''" "7 / 10" None "[]" stub_settings "[]" "[]"]
    by (simp add: chat post)
qed

section \<open>Resolving a generator\<close>

lemma get_generator_class:
  "get_generator rt settings format_name = Inr g \<Longrightarrow>
     map_of GENERATORS format_name = Some (gen_class g)"
  by (auto simp: get_generator_def split: option.splits sum.splits)

lemma BaseGenerator_not_registered: "(format_name, BaseGenerator) \<notin> set GENERATORS"
  by (auto simp: GENERATORS_def)

text \<open>
  Claim C3, as stated, fails: for the custom format \<open>blog\<close>, with a template in the store
  and a backend that answers, the pipeline raises the unsupported-format error.
\<close>

theorem custom_format_counterexample:
  "map_of GENERATORS (py ''blog'') = None
   \<and> fst (get_prompt stub_loader (py ''blog''))
       = Inr [(py ''system'', py ''You write blogs.''), (py ''user'', py ''Blog: {input_text}'')]
   \<and> generate_format stub_runtime stub_settings (FileDoc stub_prompts) (py ''Launch of product X'')
        (py ''blog'')
       = Inl (UnsupportedFormat (py ''blog'')
               [py ''telegram'', py ''email'', py ''official_letter'', py ''newsletter''])"
  by (simp add: generate_format_def get_generator_def GENERATORS_def get_prompt_def load_def
      stub_loader_def stub_prompts_def read_yaml_def)

text \<open>
  Claim C3, amended. For every format name that is not a key of the registry, the pipeline
  raises the unsupported-format error that lists the registered names, whatever the
  settings, the store and the backend. The default strategy (temperature 0.7, no token
  limit, trimming only) is the one of the base class, and no name resolves to a generator
  of the base class.
\<close>

theorem custom_format_unsupported:
  "(map_of GENERATORS format_name = None \<longrightarrow>
      generate_format rt settings d input_text format_name
        = Inl (UnsupportedFormat format_name (map fst GENERATORS)))
   \<and> (get_generator rt settings builtin_name = Inr g \<longrightarrow> gen_class g \<noteq> BaseGenerator)
   \<and> get_temperature BaseGenerator = 7 / 10
   \<and> get_max_tokens BaseGenerator = None
   \<and> post_process BaseGenerator content = strip content"
proof -
  have "gen_class g \<noteq> BaseGenerator" if "get_generator rt settings builtin_name = Inr g"
    using get_generator_class[OF that] BaseGenerator_not_registered[of builtin_name]
    by (auto dest: map_of_SomeD)
  then show ?thesis
    by (simp add: generate_format_def get_generator_def)
qed

lemma stub_provider:
  "get_ai_provider stub_runtime stub_settings
     = (Inr (OpenAIProvider stub_settings), [OpenAI_client (py ''sk-test'') (py ''https://api.openai.com/v1'')])"
  by (simp add: get_ai_provider_def stub_runtime_def stub_settings_def ascii_lower_def
      OpenAIProvider_init_def falsy_def)

lemma stub_get_generator_telegram:
  "get_generator stub_runtime stub_settings (py ''telegram'')
     = Inr \<lparr>gen_class = TelegramGenerator, gen_provider = OpenAIProvider stub_settings\<rparr>"
  by (simp add: get_generator_def GENERATORS_def stub_provider)

lemma stub_get_generator_email:
  "get_generator stub_runtime stub_settings (py ''email'')
     = Inr \<lparr>gen_class = EmailGenerator, gen_provider = OpenAIProvider stub_settings\<rparr>"
  by (simp add: get_generator_def GENERATORS_def stub_provider)

lemma stub_telegram:
  "generate_format stub_runtime stub_settings (FileDoc stub_prompts) (py ''Launch of product X'')
     (py ''telegram'') = Inr (py ''Product X is out.'')"
  unfolding generate_format_def stub_get_generator_telegram
  apply (simp add: generate_def get_prompt_def load_def read_yaml_def stub_prompts_def)
  apply (simp add: stub_runtime_def OpenAIProvider_generate_def stub_chat_def OpenAIProvider_request_def
      first_content_def Telegram_post_process_def strip_def isspace_def NL_def Let_def)
  done

lemma stub_email:
  "generate_format stub_runtime stub_settings (FileDoc stub_prompts) (py ''Launch of product X'')
     (py ''email'') = Inl TransportError"
  unfolding generate_format_def stub_get_generator_email
  apply (simp add: generate_def get_prompt_def load_def read_yaml_def stub_prompts_def)
  apply (simp add: stub_runtime_def OpenAIProvider_generate_def stub_chat_def OpenAIProvider_request_def)
  done


theorem custom_format_unsupported_witness:
  "map_of GENERATORS (py ''blog'') = None
   \<and> generate_format stub_runtime stub_settings (FileDoc stub_prompts) (py ''Launch of product X'')
        (py ''blog'')
       = Inl (UnsupportedFormat (py ''blog'') (map fst GENERATORS))
   \<and> get_generator stub_runtime stub_settings (py ''telegram'')
       = Inr \<lparr>gen_class = TelegramGenerator, gen_provider = OpenAIProvider stub_settings\<rparr>
   \<and> gen_class \<lparr>gen_class = TelegramGenerator, gen_provider = OpenAIProvider stub_settings\<rparr>
       \<noteq> BaseGenerator"
proof -
  have custom: "map_of GENERATORS (py ''blog'') = None"
    by (simp add: GENERATORS_def)
  show ?thesis
    using custom_format_unsupported[of "py ''blog''" stub_runtime stub_settings "FileDoc stub_prompts"
        "py ''Launch of product X''" "py ''telegram''"
        "\<lparr>gen_class = TelegramGenerator, gen_provider = OpenAIProvider stub_settings\<rparr>"]
      custom stub_get_generator_telegram
    by simp
qed

section \<open>A batch with one failing format\<close>

lemma batch_loop_results:
  "batch_loop run formats (results0, errors0) = (results, errors) \<Longrightarrow>
     map_of results g
       = (if g \<in> set formats
          then Some (case run g of Inl e \<Rightarrow> None | Inr content \<Rightarrow> Some content)
          else map_of results0 g)"
proof (induction formats arbitrary: results0 errors0)
  case Nil
  then show ?case by simp
next
  case (Cons f formats)
  show ?case
  proof (cases "run f")
    case (Inl e)
    with Cons.prems have
      "batch_loop run formats (AList.update f None results0, AList.update f e errors0)
         = (results, errors)"
      by simp
    from Cons.IH[OF this] Inl show ?thesis
      by (auto simp: update_conv')
  next
    case (Inr content)
    with Cons.prems have
      "batch_loop run formats (AList.update f (Some content) results0, errors0) = (results, errors)"
      by simp
    from Cons.IH[OF this] Inr show ?thesis
      by (auto simp: update_conv')
  qed
qed

lemma batch_loop_errors:
  "batch_loop run formats (results0, errors0) = (results, errors) \<Longrightarrow>
     map_of errors g
       = (if g \<in> set formats
          then (case run g of Inl e \<Rightarrow> Some e | Inr content \<Rightarrow> map_of errors0 g)
          else map_of errors0 g)"
proof (induction formats arbitrary: results0 errors0)
  case Nil
  then show ?case by simp
next
  case (Cons f formats)
  show ?case
  proof (cases "run f")
    case (Inl e)
    with Cons.prems have
      "batch_loop run formats (AList.update f None results0, AList.update f e errors0)
         = (results, errors)"
      by simp
    from Cons.IH[OF this] Inl show ?thesis
      by (auto simp: update_conv' split: sum.splits)
  next
    case (Inr content)
    with Cons.prems have
      "batch_loop run formats (AList.update f (Some content) results0, errors0) = (results, errors)"
      by simp
    from Cons.IH[OF this] Inr show ?thesis
      by (auto simp: update_conv' split: sum.splits)
  qed
qed

lemma keys_map_of: "fst ` set al = {k. map_of al k \<noteq> None}"
  by (auto simp: map_of_eq_None_iff)

lemma batch_loop_one_failure:
  assumes loop: "batch_loop run formats ([], []) = (results, errors)"
    and requested: "f \<in> set formats"
    and failed: "run f = Inl e"
    and others: "\<forall>g \<in> set formats. g \<noteq> f \<longrightarrow> (\<exists>content. run g = Inr content)"
  shows "map_of results f = Some None"
    and "\<forall>g \<in> set formats. g \<noteq> f \<longrightarrow> (\<exists>content. run g = Inr content \<and> map_of results g = Some (Some content))"
    and "fst ` set results = set formats"
    and "fst ` set errors = {f}"
    and "map_of errors f = Some e"
proof -
  show "map_of results f = Some None"
    using batch_loop_results[OF loop, of f] requested failed by simp
  show "\<forall>g \<in> set formats. g \<noteq> f \<longrightarrow> (\<exists>content. run g = Inr content \<and> map_of results g = Some (Some content))"
  proof (intro ballI impI)
    fix g assume g: "g \<in> set formats" "g \<noteq> f"
    with others obtain content where "run g = Inr content" by blast
    with batch_loop_results[OF loop, of g] g
    show "\<exists>content. run g = Inr content \<and> map_of results g = Some (Some content)" by simp
  qed
  show "fst ` set results = set formats"
    unfolding keys_map_of using batch_loop_results[OF loop] by auto
  show "map_of errors f = Some e"
    using batch_loop_errors[OF loop, of f] requested failed by simp
  show "fst ` set errors = {f}"
  proof -
    have "map_of errors g \<noteq> None \<longleftrightarrow> g = f" for g
    proof (cases "g \<in> set formats")
      case True
      then show ?thesis
        using batch_loop_errors[OF loop, of g] others failed by (cases "g = f") auto
    next
      case False
      then show ?thesis
        using batch_loop_errors[OF loop, of g] requested by auto
    qed
    then show ?thesis unfolding keys_map_of by auto
  qed
qed

text \<open>
  Claim C1. In a batch where the pipeline fails for one requested format \<open>f\<close> and succeeds
  for every other requested format, of which there is at least one, the HTTP handler
  returns (no exception leaves it) and the command line reaches its output: the result of
  every successful format is its content, the result of \<open>f\<close> is \<open>None\<close>, the results have
  one key per requested format, and the keys of the errors are exactly \<open>f\<close>, mapped to the
  exception of its failure. The command line then exits with status 1.
\<close>

theorem batch_one_failure:
  assumes requested: "f \<in> set formats"
    and failed: "generate_format rt settings d input_text f = Inl e"
    and others: "\<forall>g \<in> set formats. g \<noteq> f \<longrightarrow>
                   (\<exists>content. generate_format rt settings d input_text g = Inr content)"
    and another: "g0 \<in> set formats" "g0 \<noteq> f"
  shows "\<exists>results errors.
           generate_content rt settings d input_text formats
             = Inr (\<lparr>od_input_text = input_text, od_formats = formats, od_results = results,
                      od_errors = Some errors\<rparr>, results)
         \<and> (set formats \<subseteq> fst ` set GENERATORS \<longrightarrow>
              cli_generate rt settings d input_text formats
                = \<lparr>exit_status = 1,
                   cli_output = Some \<lparr>od_input_text = input_text, od_formats = formats,
                                      od_results = results, od_errors = Some errors\<rparr>\<rparr>)
         \<and> map_of results f = Some None
         \<and> (\<forall>g \<in> set formats. g \<noteq> f \<longrightarrow>
                (\<exists>content. generate_format rt settings d input_text g = Inr content
                           \<and> map_of results g = Some (Some content)))
         \<and> fst ` set results = set formats
         \<and> fst ` set errors = {f}
         \<and> map_of errors f = Some e"
proof -
  obtain results errors where
    loop: "batch_loop (generate_format rt settings d input_text) formats ([], []) = (results, errors)"
    by (cases "batch_loop (generate_format rt settings d input_text) formats ([], [])") auto
  note facts = batch_loop_one_failure[OF loop requested failed others]
  from facts(2) another obtain content where "map_of results g0 = Some (Some content)"
    by blast
  then have some: "(g0, Some content) \<in> set results"
    by (rule map_of_SomeD)
  then have nonempty: "results \<noteq> []"
    by auto
  from some have not_all_none: "\<not> (\<forall>v \<in> set (map snd results). v = None)"
    by force
  from facts(4) have errors: "errors \<noteq> []"
    by auto
  have http: "generate_content rt settings d input_text formats
             = Inr (\<lparr>od_input_text = input_text, od_formats = formats, od_results = results,
                      od_errors = Some errors\<rparr>, results)"
    using nonempty not_all_none errors by (simp add: generate_content_def loop)
  have cli: "cli_generate rt settings d input_text formats
                = \<lparr>exit_status = 1,
                   cli_output = Some \<lparr>od_input_text = input_text, od_formats = formats,
                                      od_results = results, od_errors = Some errors\<rparr>\<rparr>"
    if "set formats \<subseteq> fst ` set GENERATORS"
  proof -
    from requested have "formats \<noteq> []" by auto
    moreover from that have "filter (\<lambda>f. f \<notin> fst ` set GENERATORS) formats = []"
      by (auto simp: filter_empty_conv)
    ultimately show ?thesis
      using errors by (simp add: cli_generate_def loop)
  qed
  from http cli facts show ?thesis
    by blast
qed



theorem batch_one_failure_witness:
  "py ''email'' \<in> set [py ''telegram'', py ''email'']
   \<and> generate_format stub_runtime stub_settings (FileDoc stub_prompts) (py ''Launch of product X'')
        (py ''email'') = Inl TransportError
   \<and> generate_format stub_runtime stub_settings (FileDoc stub_prompts) (py ''Launch of product X'')
        (py ''telegram'') = Inr (py ''Product X is out.'')
   \<and> py ''telegram'' \<noteq> py ''email''
   \<and> set [py ''telegram'', py ''email''] \<subseteq> fst ` set GENERATORS
   \<and> (\<exists>results errors.
         generate_content stub_runtime stub_settings (FileDoc stub_prompts) (py ''Launch of product X'')
             [py ''telegram'', py ''email'']
           = Inr (\<lparr>od_input_text = py ''Launch of product X'',
                    od_formats = [py ''telegram'', py ''email''], od_results = results,
                    od_errors = Some errors\<rparr>, results)
       \<and> (set [py ''telegram'', py ''email''] \<subseteq> fst ` set GENERATORS \<longrightarrow>
            cli_generate stub_runtime stub_settings (FileDoc stub_prompts) (py ''Launch of product X'')
                [py ''telegram'', py ''email'']
              = \<lparr>exit_status = 1,
                 cli_output = Some \<lparr>od_input_text = py ''Launch of product X'',
                                    od_formats = [py ''telegram'', py ''email''], od_results = results,
                                    od_errors = Some errors\<rparr>\<rparr>)
       \<and> map_of results (py ''email'') = Some None
       \<and> (\<forall>g \<in> set [py ''telegram'', py ''email'']. g \<noteq> py ''email'' \<longrightarrow>
              (\<exists>content. generate_format stub_runtime stub_settings (FileDoc stub_prompts)
                            (py ''Launch of product X'') g = Inr content
                         \<and> map_of results g = Some (Some content)))
       \<and> fst ` set results = set [py ''telegram'', py ''email'']
       \<and> fst ` set errors = {py ''email''}
       \<and> map_of errors (py ''email'') = Some TransportError)"
proof -
  have requested: "py ''email'' \<in> set [py ''telegram'', py ''email'']"
    by simp
  have others: "\<forall>g \<in> set [py ''telegram'', py ''email'']. g \<noteq> py ''email'' \<longrightarrow>
      (\<exists>content. generate_format stub_runtime stub_settings (FileDoc stub_prompts)
                    (py ''Launch of product X'') g = Inr content)"
    using stub_telegram by simp
  have another: "py ''telegram'' \<in> set [py ''telegram'', py ''email'']"
    by simp
  have distinct: "py ''telegram'' \<noteq> py ''email''"
    by simp
  have builtin: "set [py ''telegram'', py ''email''] \<subseteq> fst ` set GENERATORS"
    by (simp add: GENERATORS_def)
  note run = batch_one_failure[OF requested stub_email others another distinct]
  show ?thesis
    by (intro conjI requested stub_email stub_telegram distinct builtin run)
qed

section \<open>Telegram post-processing\<close>

lemma length_strip_le: "length (strip s) \<le> length s"
proof -
  have "length (strip s) \<le> length (dropWhile isspace s)"
    unfolding strip_def using length_dropWhile_le[of isspace "rev (dropWhile isspace s)"] by simp
  also have "\<dots> \<le> length s"
    by (rule length_dropWhile_le)
  finally show ?thesis .
qed

lemma length_sub_newlines_le: "length (sub_newlines s) \<le> length s"
proof (induction s rule: sub_newlines.induct)
  case 1
  then show ?case by simp
next
  case (2 c cs)
  show ?case
  proof (cases "c = NL \<and> 2 \<le> length (takeWhile (\<lambda>x. x = NL) cs)")
    case True
    have "length cs = length (takeWhile (\<lambda>x. x = NL) cs) + length (dropWhile (\<lambda>x. x = NL) cs)"
      by (metis length_append takeWhile_dropWhile_id)
    with True 2(1) show ?thesis by simp
  next
    case False
    with 2(2,3) show ?thesis by auto
  qed
qed

lemma takeWhile_two:
  assumes "2 \<le> length (takeWhile P cs)"
  shows "\<exists>a b rest. cs = a # b # rest \<and> P a \<and> P b"
proof (cases cs)
  case Nil
  with assms show ?thesis by simp
next
  case (Cons a cs')
  with assms have a: "P a" by (auto split: if_splits)
  with assms Cons have "1 \<le> length (takeWhile P cs')" by simp
  then show ?thesis using Cons a by (cases cs') (auto split: if_splits)
qed

lemma sub_newlines_id: "\<not> sublist [NL, NL, NL] s \<Longrightarrow> sub_newlines s = s"
proof (induction s rule: sub_newlines.induct)
  case 1
  then show ?case by simp
next
  case (2 c cs)
  have no_run: "\<not> (c = NL \<and> 2 \<le> length (takeWhile (\<lambda>x. x = NL) cs))"
  proof
    assume run: "c = NL \<and> 2 \<le> length (takeWhile (\<lambda>x. x = NL) cs)"
    then obtain rest where "cs = NL # NL # rest"
      using takeWhile_two[of "\<lambda>x. x = NL" cs] by auto
    with run have "c # cs = [] @ [NL, NL, NL] @ rest" by simp
    then have "sublist [NL, NL, NL] (c # cs)" unfolding sublist_def by blast
    with 2(4) show False by simp
  qed
  from 2(4) have "\<not> sublist [NL, NL, NL] cs"
    by (auto simp: sublist_Cons_right)
  with 2(2,3) no_run show ?case by auto
qed

text \<open>
  Claim C4. For every raw text of at most 300 characters with no three consecutive
  newlines, the Telegram post-processing returns the trimmed, newline-collapsed text,
  which is the trimmed input itself.
\<close>

theorem telegram_short_unchanged:
  assumes "length raw \<le> 300" and "\<not> sublist [NL, NL, NL] raw"
  shows "post_process TelegramGenerator raw = strip (sub_newlines raw)
       \<and> post_process TelegramGenerator raw = strip raw"
proof -
  have "length (strip (sub_newlines raw)) \<le> length raw"
    using length_strip_le[of "sub_newlines raw"] length_sub_newlines_le[of raw] by simp
  with assms(1) have "post_process TelegramGenerator raw = strip (sub_newlines raw)"
    by (simp add: Telegram_post_process_def Let_def)
  then show ?thesis
    by (simp add: sub_newlines_id[OF assms(2)])
qed

lemma not_sublist_if_absent: "x \<in> set xs \<Longrightarrow> x \<notin> set ys \<Longrightarrow> \<not> sublist xs ys"
  by (auto simp: sublist_def)

theorem telegram_short_unchanged_witness:
  "length (py '' Product X is out. '') \<le> 300
   \<and> \<not> sublist [NL, NL, NL] (py '' Product X is out. '')
   \<and> post_process TelegramGenerator (py '' Product X is out. '') = py ''Product X is out.''
   \<and> strip (py '' Product X is out. '') = py ''Product X is out.''"
proof -
  have short: "length (py '' Product X is out. '') \<le> 300"
    by simp
  have no_run: "\<not> sublist [NL, NL, NL] (py '' Product X is out. '')"
    by (rule not_sublist_if_absent[of NL]) (simp_all add: NL_def)
  have trimmed: "strip (py '' Product X is out. '') = py ''Product X is out.''"
    by (simp add: strip_def isspace_def)
  from telegram_short_unchanged[OF short no_run]
  have "post_process TelegramGenerator (py '' Product X is out. '') = strip (py '' Product X is out. '')"
    by (rule conjunct2)
  then have out: "post_process TelegramGenerator (py '' Product X is out. '') = py ''Product X is out.''"
    by (simp only: trimmed)
  show ?thesis
    by (intro conjI short no_run out trimmed)
qed

lemma split_sentences_nonempty: "split_sentences s \<noteq> []"
  by (induction s rule: split_sentences.induct) (auto split: list.splits)

lemma split_sentences_plain:
  "\<forall>c \<in> set s. \<not> sentence_end c \<Longrightarrow> split_sentences s = [s]"
  by (induction s) auto

lemma split_sentences_first:
  assumes "\<forall>c \<in> set xs. \<not> sentence_end c" and "sentence_end e" and "isspace w"
  shows "split_sentences (xs @ e # w # ys) = xs # split_sentences (dropWhile isspace ys)"
  using assms by (induction xs) auto

lemma sub_newlines_plain: "NL \<notin> set xs \<Longrightarrow> sub_newlines (xs @ ys) = xs @ sub_newlines ys"
  by (induction xs) auto

lemma sub_newlines_plain_all: "NL \<notin> set xs \<Longrightarrow> sub_newlines xs = xs"
  using sub_newlines_plain[of xs "[]"] by simp

lemma takeWhile_replicate_append:
  "takeWhile (\<lambda>x. x = a) (replicate n a @ ys) = replicate n a @ takeWhile (\<lambda>x. x = a) ys"
  by (induction n) auto

lemma dropWhile_replicate_append:
  "dropWhile (\<lambda>x. x = a) (replicate n a @ ys) = dropWhile (\<lambda>x. x = a) ys"
  by (induction n) auto

lemma sub_newlines_run:
  assumes "2 \<le> n" and "ys = [] \<or> hd ys \<noteq> NL"
  shows "sub_newlines (replicate (Suc n) NL @ ys) = [NL, NL] @ sub_newlines ys"
proof -
  from assms(2) have "takeWhile (\<lambda>x. x = NL) ys = []" "dropWhile (\<lambda>x. x = NL) ys = ys"
    by (cases ys; simp)+
  then have "takeWhile (\<lambda>x. x = NL) (replicate n NL @ ys) = replicate n NL"
    and "dropWhile (\<lambda>x. x = NL) (replicate n NL @ ys) = ys"
    by (simp_all add: takeWhile_replicate_append dropWhile_replicate_append)
  with assms(1) show ?thesis
    by simp
qed

lemma strip_plain_ends:
  assumes "s \<noteq> []" and "\<not> isspace (hd s)" and "\<not> isspace (last s)"
  shows "strip s = s"
proof -
  from assms(1,2) have "dropWhile isspace s = s"
    by (cases s) auto
  moreover from assms(1,3) have "dropWhile isspace (rev s) = rev s"
    by (cases "rev s") (auto simp: last_rev[symmetric] simp del: last_rev)
  ultimately show ?thesis by (simp add: strip_def)
qed

lemma strip_trailing_space:
  assumes "s \<noteq> []" and "\<not> isspace (hd s)" and "\<not> isspace (last s)" and "isspace w"
  shows "strip (s @ [w]) = s"
proof -
  from assms(1,2) have "dropWhile isspace (s @ [w]) = s @ [w]"
    by (cases s) auto
  moreover from assms(1,3) have "dropWhile isspace (rev s) = rev s"
    by (cases "rev s") (auto simp: last_rev[symmetric] simp del: last_rev)
  ultimately show ?thesis using assms(4) by (simp add: strip_def)
qed

lemma first_sentence_too_long:
  assumes "300 < length (hd (split_sentences content))"
  shows "reassemble [] (split_sentences content) = []"
proof (cases "split_sentences content")
  case Nil
  then show ?thesis by (simp add: split_sentences_nonempty)
next
  case (Cons sentence sentences)
  with assms show ?thesis by simp
qed

text \<open>
  Claim C10, as stated, fails: a raw text of 311 characters with no sentence end, so that
  its first sentence segment is the whole text, is returned with its run of twenty newlines
  collapsed, 293 characters long, and not as the empty string.
\<close>

theorem telegram_long_first_sentence_counterexample:
  "300 < length (replicate 290 97 @ replicate 20 NL @ [98])
   \<and> 300 < length (hd (split_sentences (replicate 290 97 @ replicate 20 NL @ [98])))
   \<and> post_process TelegramGenerator (replicate 290 97 @ replicate 20 NL @ [98])
       = replicate 290 97 @ [NL, NL, 98]
   \<and> replicate 290 97 @ [NL, NL, 98] \<noteq> ([] :: pystr)"
proof -
  have plain: "\<forall>c \<in> set (replicate 290 97 @ replicate 20 NL @ [98]). \<not> sentence_end c"
    by (auto simp: sentence_end_def NL_def)
  have first: "300 < length (hd (split_sentences (replicate 290 97 @ replicate 20 NL @ [98])))"
    by (simp add: split_sentences_plain[OF plain])
  have head: "sub_newlines (replicate 290 97 @ (replicate (Suc 19) NL @ [98]))
          = replicate 290 97 @ sub_newlines (replicate (Suc 19) NL @ [98])"
    by (rule sub_newlines_plain) (simp add: NL_def)
  have run: "sub_newlines (replicate (Suc 19) NL @ [98]) = [NL, NL] @ sub_newlines [98]"
    by (rule sub_newlines_run) (simp_all add: NL_def)
  have tail: "sub_newlines [98] = [98]"
    by (simp add: NL_def)
  have twenty: "replicate 20 NL = replicate (Suc 19) NL"
    by (rule arg_cong[where f = "\<lambda>n. replicate n NL"]) simp
  have collapsed: "sub_newlines (replicate 290 97 @ replicate 20 NL @ [98])
          = replicate 290 97 @ [NL, NL, 98]"
    by (simp only: twenty head run tail append.simps)
  have kept: "strip (replicate 290 97 @ [NL, NL, 98]) = replicate 290 97 @ [NL, NL, 98]"
    by (rule strip_plain_ends) (simp_all add: isspace_def hd_append)
  have "post_process TelegramGenerator (replicate 290 97 @ replicate 20 NL @ [98])
          = replicate 290 97 @ [NL, NL, 98]"
    by (simp add: Telegram_post_process_def collapsed kept)
  with first show ?thesis by simp
qed

text \<open>
  Claim C10, amended. When the trimmed, newline-collapsed text is longer than 300
  characters and its first sentence segment is longer than 300 characters, the Telegram
  post-processing returns the empty string.
\<close>

theorem telegram_long_first_sentence_empty:
  assumes "300 < length (strip (sub_newlines raw))"
    and "300 < length (hd (split_sentences (strip (sub_newlines raw))))"
  shows "post_process TelegramGenerator raw = []"
  using assms first_sentence_too_long[OF assms(2)]
  by (simp add: Telegram_post_process_def strip_def)

lemma strip_head: "strip s \<noteq> [] \<Longrightarrow> \<not> isspace (hd (strip s))"
proof -
  have "dropWhile isspace (strip s) = strip s"
    unfolding strip_def by (rule dropWhile_rev_dropWhile_rev[OF dropWhile_head])
  then show "strip s \<noteq> [] \<Longrightarrow> \<not> isspace (hd (strip s))"
    by (simp add: dropWhile_eq_self_iff)
qed

lemma split_sentences_hd_prefix: "prefix (hd (split_sentences s)) s"
proof (induction s rule: split_sentences.induct)
  case 1
  then show ?case by simp
next
  case (2 c cs)
  show ?case
  proof (cases "sentence_end c \<and> cs \<noteq> [] \<and> isspace (hd cs)")
    case True
    then show ?thesis by simp
  next
    case False
    obtain p ps where split: "split_sentences cs = p # ps"
      using split_sentences_nonempty[of cs] by (cases "split_sentences cs") auto
    from 2(2)[OF False] split have "prefix p cs" by simp
    with False split show ?thesis by simp
  qed
qed

lemma reassemble_take:
  "\<exists>k \<le> length ss.
     reassemble acc ss = acc @ concat (map (\<lambda>s. s @ py ''. '') (take k ss))
     \<and> (\<forall>j < k. length (acc @ concat (map (\<lambda>s. s @ py ''. '') (take j ss)) @ ss ! j) \<le> 300)
     \<and> (k < length ss \<longrightarrow>
          300 < length (acc @ concat (map (\<lambda>s. s @ py ''. '') (take k ss)) @ ss ! k))"
proof (induction ss arbitrary: acc)
  case Nil
  then show ?case by simp
next
  case (Cons s ss)
  let ?t = "\<lambda>s. s @ py ''. ''"
  show ?case
  proof (cases "length (acc @ s) \<le> 300")
    case True
    from Cons.IH[of "acc @ ?t s"] obtain k where k: "k \<le> length ss"
      and eq: "reassemble (acc @ ?t s) ss = (acc @ ?t s) @ concat (map ?t (take k ss))"
      and fit: "\<forall>j < k. length ((acc @ ?t s) @ concat (map ?t (take j ss)) @ ss ! j) \<le> 300"
      and stop: "k < length ss \<longrightarrow> 300 < length ((acc @ ?t s) @ concat (map ?t (take k ss)) @ ss ! k)"
      by blast
    have "\<forall>j < Suc k. length (acc @ concat (map ?t (take j (s # ss))) @ (s # ss) ! j) \<le> 300"
    proof (intro allI impI)
      fix j assume "j < Suc k"
      show "length (acc @ concat (map ?t (take j (s # ss))) @ (s # ss) ! j) \<le> 300"
      proof (cases j)
        case 0
        with True show ?thesis by simp
      next
        case (Suc j')
        with \<open>j < Suc k\<close> fit have "length ((acc @ ?t s) @ concat (map ?t (take j' ss)) @ ss ! j') \<le> 300"
          by simp
        with Suc show ?thesis by simp
      qed
    qed
    moreover have "reassemble acc (s # ss) = acc @ concat (map ?t (take (Suc k) (s # ss)))"
      using True eq by simp
    moreover have "Suc k < length (s # ss) \<longrightarrow>
        300 < length (acc @ concat (map ?t (take (Suc k) (s # ss))) @ (s # ss) ! Suc k)"
      using stop by simp
    moreover have "Suc k \<le> length (s # ss)"
      using k by simp
    ultimately show ?thesis by blast
  next
    case False
    then have "reassemble acc (s # ss) = acc @ concat (map ?t (take 0 (s # ss)))"
      and "0 < length (s # ss) \<longrightarrow> 300 < length (acc @ concat (map ?t (take 0 (s # ss))) @ (s # ss) ! 0)"
      by simp_all
    then show ?thesis by blast
  qed
qed

lemma kept_head:
  assumes ss: "ss \<noteq> []" and k: "k < length ss"
  shows "\<exists>rest. concat (map (\<lambda>s. s @ py ''. '') (take k ss)) @ ss ! k = hd ss @ rest
               \<and> (rest = [] \<or> hd rest = 46)"
proof (cases k)
  case 0
  with ss show ?thesis by (simp add: hd_conv_nth)
next
  case (Suc m)
  from ss obtain s ss' where "ss = s # ss'" by (cases ss) auto
  with Suc show ?thesis by simp
qed

lemma strip_reassembled:
  assumes content: "strip raw \<noteq> []"
    and ss: "split_sentences (strip raw) = ss"
    and k: "k < length ss"
  shows "strip ((concat (map (\<lambda>s. s @ py ''. '') (take k ss)) @ ss ! k) @ py ''. '')
           = (concat (map (\<lambda>s. s @ py ''. '') (take k ss)) @ ss ! k) @ py ''.''"
proof -
  let ?kept = "concat (map (\<lambda>s. s @ py ''. '') (take k ss)) @ ss ! k"
  from k have ne: "ss \<noteq> []" by auto
  from kept_head[OF ne k] obtain rest where
    kept: "?kept = hd ss @ rest" and rest: "rest = [] \<or> hd rest = 46"
    by blast
  have "\<not> isspace (hd (?kept @ [46]))"
  proof (cases "hd ss = []")
    case True
    with kept rest have "hd (?kept @ [46]) = 46"
      by (cases rest) auto
    then show ?thesis by (simp add: isspace_def)
  next
    case False
    from split_sentences_hd_prefix[of "strip raw"] ss have "prefix (hd ss) (strip raw)"
      by simp
    with False have "hd (hd ss) = hd (strip raw)"
      by (auto simp: prefix_def)
    moreover from kept False have "hd (?kept @ [46]) = hd (hd ss)"
      by simp
    ultimately show ?thesis
      using strip_head[OF content] by simp
  qed
  moreover have "\<not> isspace (last (?kept @ [46]))"
    by (simp add: isspace_def)
  moreover have "isspace 32"
    by (simp add: isspace_def)
  ultimately have "strip ((?kept @ [46]) @ [32]) = ?kept @ [46]"
    by (intro strip_trailing_space) simp_all
  then show ?thesis by simp
qed

text \<open>
  Claim C2, amended. When the trimmed, newline-collapsed text is longer than 300
  characters and its first sentence has at most 300 characters, the Telegram
  post-processing returns at most 300 characters: the first 300 characters of \<open>kept\<close>
  followed by a full stop, where \<open>kept\<close> is made of the leading sentences up to the
  \<open>k\<close>-th, each but the last one followed by a full stop and a space, has at most 300
  characters, and cannot take the next sentence, if there is one, within 300 characters.
\<close>

theorem telegram_truncates_at_sentences:
  assumes long: "300 < length (strip (sub_newlines raw))"
    and first: "length (hd (split_sentences (strip (sub_newlines raw)))) \<le> 300"
  shows "length (post_process TelegramGenerator raw) \<le> 300
       \<and> (\<exists>k kept.
            k < length (split_sentences (strip (sub_newlines raw)))
          \<and> kept = concat (map (\<lambda>s. s @ py ''. '')
                             (take k (split_sentences (strip (sub_newlines raw)))))
                     @ split_sentences (strip (sub_newlines raw)) ! k
          \<and> length kept \<le> 300
          \<and> post_process TelegramGenerator raw = take 300 (kept @ py ''.'')
          \<and> (Suc k < length (split_sentences (strip (sub_newlines raw))) \<longrightarrow>
                300 < length (kept @ py ''. '' @ split_sentences (strip (sub_newlines raw)) ! Suc k)))"
proof -
  let ?ss = "split_sentences (strip (sub_newlines raw))"
  let ?t = "\<lambda>s. s @ py ''. ''"
  have ne: "?ss \<noteq> []"
    by (rule split_sentences_nonempty)
  from reassemble_take[of ?ss "[]"] obtain n where n: "n \<le> length ?ss"
    and eq: "reassemble [] ?ss = concat (map ?t (take n ?ss))"
    and fit: "\<forall>j < n. length (concat (map ?t (take j ?ss)) @ ?ss ! j) \<le> 300"
    and stop: "n < length ?ss \<longrightarrow> 300 < length (concat (map ?t (take n ?ss)) @ ?ss ! n)"
    by auto
  have "n \<noteq> 0"
  proof
    assume "n = 0"
    with stop ne have "300 < length (?ss ! 0)" by simp
    with first ne show False by (simp add: hd_conv_nth)
  qed
  then obtain k where k: "n = Suc k" by (cases n) auto
  with n have less: "k < length ?ss" by simp
  define kept where "kept = concat (map ?t (take k ?ss)) @ ?ss ! k"
  from fit k have len: "length kept \<le> 300"
    unfolding kept_def by blast
  have taken: "concat (map ?t (take (Suc k) ?ss)) = kept @ py ''. ''"
    unfolding kept_def by (simp add: take_Suc_conv_app_nth[OF less])
  from long have content: "strip (sub_newlines raw) \<noteq> []"
    by auto
  have "strip (kept @ py ''. '') = kept @ py ''.''"
    unfolding kept_def by (rule strip_reassembled[OF content refl less])
  with long eq k taken have out: "post_process TelegramGenerator raw = take 300 (kept @ py ''.'')"
    by (simp add: Telegram_post_process_def Let_def)
  have next_too_long: "Suc k < length ?ss \<longrightarrow> 300 < length (kept @ py ''. '' @ ?ss ! Suc k)"
    using stop k taken by simp
  have "length (post_process TelegramGenerator raw) \<le> 300"
    unfolding out by simp
  with less len out next_too_long kept_def show ?thesis
    by blast
qed

lemma one_long_sentence_normal: "strip (sub_newlines one_long_sentence) = one_long_sentence"
proof -
  have "sub_newlines one_long_sentence = one_long_sentence"
    by (rule sub_newlines_plain_all) (simp add: one_long_sentence_def NL_def)
  moreover have "strip one_long_sentence = one_long_sentence"
    by (rule strip_plain_ends) (simp_all add: one_long_sentence_def isspace_def)
  ultimately show ?thesis by simp
qed

lemma one_long_sentence_split: "split_sentences one_long_sentence = [one_long_sentence]"
  by (rule split_sentences_plain) (simp add: one_long_sentence_def sentence_end_def)

lemma one_long_sentence_length: "length one_long_sentence = 350"
  by (simp add: one_long_sentence_def)

lemma two_sentences_normal: "strip (sub_newlines two_sentences) = two_sentences"
proof -
  have "sub_newlines two_sentences = two_sentences"
    by (rule sub_newlines_plain_all) (simp add: two_sentences_def NL_def)
  moreover have "strip two_sentences = two_sentences"
    by (rule strip_plain_ends) (simp_all add: two_sentences_def isspace_def hd_append)
  ultimately show ?thesis by simp
qed

lemma two_sentences_split: "split_sentences two_sentences = [replicate 100 97, replicate 300 98]"
proof -
  have "split_sentences (replicate 100 97 @ 33 # 32 # replicate 300 98)
          = replicate 100 97 # split_sentences (dropWhile isspace (replicate 300 98))"
    by (rule split_sentences_first) (simp_all add: sentence_end_def isspace_def)
  moreover have "dropWhile isspace (replicate 300 98) = replicate 300 98"
    by (simp add: isspace_def)
  moreover have "split_sentences (replicate 300 98) = [replicate 300 98]"
    by (rule split_sentences_plain) (simp add: sentence_end_def)
  ultimately show ?thesis
    by (simp add: two_sentences_def)
qed

lemma two_sentences_length: "length two_sentences = 402"
  by (simp add: two_sentences_def)

lemma two_sentences_output:
  "post_process TelegramGenerator two_sentences = replicate 100 97 @ py ''.''"
proof -
  have "reassemble [] [replicate 100 97, replicate 300 98] = replicate 100 97 @ py ''. ''"
    by simp
  moreover have "strip ((replicate 100 97 @ [46]) @ [32]) = replicate 100 97 @ [46]"
    by (rule strip_trailing_space) (simp_all add: isspace_def hd_append)
  ultimately show ?thesis
    by (simp add: Telegram_post_process_def two_sentences_normal two_sentences_split
        two_sentences_length)
qed

text \<open>
  Claim C2, as stated, fails: for 350 letters with no sentence end the result is empty, not
  the first 300 characters; and for a sentence closed by an exclamation mark the result
  ends in a full stop, so it is not a prefix of the input.
\<close>

theorem telegram_truncation_counterexample:
  "300 < length one_long_sentence
   \<and> post_process TelegramGenerator one_long_sentence = []
   \<and> post_process TelegramGenerator one_long_sentence \<noteq> take 300 one_long_sentence
   \<and> 300 < length two_sentences
   \<and> post_process TelegramGenerator two_sentences = replicate 100 97 @ py ''.''
   \<and> \<not> prefix (post_process TelegramGenerator two_sentences) two_sentences"
proof -
  have "reassemble [] (split_sentences one_long_sentence) = []"
    by (rule first_sentence_too_long) (simp add: one_long_sentence_split one_long_sentence_length)
  then have empty: "post_process TelegramGenerator one_long_sentence = []"
    by (simp add: Telegram_post_process_def one_long_sentence_normal one_long_sentence_length strip_Nil)
  have "take 300 one_long_sentence \<noteq> []"
    by (simp add: one_long_sentence_def)
  with empty have differs:
    "post_process TelegramGenerator one_long_sentence \<noteq> take 300 one_long_sentence"
    by simp
  have no_prefix: "\<not> prefix (post_process TelegramGenerator two_sentences) two_sentences"
    unfolding two_sentences_output by (simp add: two_sentences_def)
  have lengths: "300 < length one_long_sentence" "300 < length two_sentences"
    by (simp_all add: one_long_sentence_length two_sentences_length)
  show ?thesis
    by (intro conjI lengths empty differs two_sentences_output no_prefix)
qed

theorem telegram_truncates_at_sentences_witness:
  "300 < length (strip (sub_newlines two_sentences))
   \<and> length (hd (split_sentences (strip (sub_newlines two_sentences)))) \<le> 300
   \<and> length (post_process TelegramGenerator two_sentences) \<le> 300
   \<and> (\<exists>k kept.
        k < length (split_sentences (strip (sub_newlines two_sentences)))
      \<and> kept = concat (map (\<lambda>s. s @ py ''. '')
                         (take k (split_sentences (strip (sub_newlines two_sentences)))))
                 @ split_sentences (strip (sub_newlines two_sentences)) ! k
      \<and> length kept \<le> 300
      \<and> post_process TelegramGenerator two_sentences = take 300 (kept @ py ''.'')
      \<and> (Suc k < length (split_sentences (strip (sub_newlines two_sentences))) \<longrightarrow>
            300 < length (kept @ py ''. '' @ split_sentences (strip (sub_newlines two_sentences)) ! Suc k)))"
proof -
  have long: "300 < length (strip (sub_newlines two_sentences))"
    by (simp add: two_sentences_normal two_sentences_length)
  have first: "length (hd (split_sentences (strip (sub_newlines two_sentences)))) \<le> 300"
    by (simp add: two_sentences_normal two_sentences_split)
  note run = telegram_truncates_at_sentences[OF long first]
  show ?thesis
    by (intro conjI long first run[THEN conjunct1] run[THEN conjunct2])
qed

theorem telegram_long_first_sentence_empty_witness:
  "300 < length (strip (sub_newlines one_long_sentence))
   \<and> 300 < length (hd (split_sentences (strip (sub_newlines one_long_sentence))))
   \<and> post_process TelegramGenerator one_long_sentence = []"
proof -
  have long: "300 < length (strip (sub_newlines one_long_sentence))"
    by (simp add: one_long_sentence_normal one_long_sentence_length)
  have first: "300 < length (hd (split_sentences (strip (sub_newlines one_long_sentence))))"
    by (simp add: one_long_sentence_normal one_long_sentence_split one_long_sentence_length)
  show ?thesis
    by (intro conjI long first telegram_long_first_sentence_empty[OF long first])
qed

end
